theory Spec2Isabelle
  imports Main
begin

section \<open>Python values and faults\<close>

text \<open>
  The arguments of \<open>StatusCodes.get\<close> and \<open>AliasResolver.sendCode\<close> are documented as
  "str or int" and default to \<open>None\<close>; the three shapes are kept apart by a datatype.
  Every \<open>raise\<close> of the source is a value of \<open>error\<close>.
\<close>

datatype pyval = PNone | PInt int | PStr string

datatype error = TypeError | KeyError | ValueError | AttributeError | DatabaseNotConnected

text \<open>Python truth value: \<open>None\<close>, \<open>0\<close> and the empty string are false.\<close>

fun truthy :: "pyval \<Rightarrow> bool" where
  "truthy PNone = False"
| "truthy (PInt n) = (n \<noteq> 0)"
| "truthy (PStr s) = (s \<noteq> [])"

subsection \<open>String primitives of the language\<close>

definition digit_char :: "nat \<Rightarrow> char" where
  "digit_char d = ''0123456789'' ! d"

text \<open>The decimal digits of a natural number, most significant first.\<close>

fun digits :: "nat \<Rightarrow> string" where
  "digits n = (if n < 10 then [digit_char n] else digits (n div 10) @ [digit_char (n mod 10)])"

declare digits.simps [simp del]

text \<open>\<open>str(n)\<close> for an int.\<close>

definition str_int :: "int \<Rightarrow> string" where
  "str_int n = (if n < 0 then ''-'' else []) @ digits (nat \<bar>n\<bar>)"

text \<open>
  \<open>'%3.3d' % n\<close>: the precision asks for at least three digits, padded with zeros; the
  sign comes first; the field width of three never adds anything.
\<close>

definition fmt_3_3d :: "int \<Rightarrow> string" where
  "fmt_3_3d n = (if n < 0 then ''-'' else []) @
     replicate (3 - length (digits (nat \<bar>n\<bar>))) CHR ''0'' @ digits (nat \<bar>n\<bar>)"

text \<open>\<open>'%s' % v\<close>.\<close>

fun fmt_s :: "pyval \<Rightarrow> string" where
  "fmt_s PNone = ''None''"
| "fmt_s (PInt n) = str_int n"
| "fmt_s (PStr s) = s"

definition upper_char :: "char \<Rightarrow> char" where
  "upper_char c = (case map_of (zip ''abcdefghijklmnopqrstuvwxyz'' ''ABCDEFGHIJKLMNOPQRSTUVWXYZ'') c of
     Some u \<Rightarrow> u | None \<Rightarrow> c)"

text \<open>\<open>s.upper()\<close>.\<close>

definition upper :: "string \<Rightarrow> string" where
  "upper s = map upper_char s"

text \<open>The characters \<open>str.split(None)\<close> treats as separators.\<close>

definition isspace :: "char \<Rightarrow> bool" where
  "isspace c = (c \<in> set [CHR '' '', CHR 0x09, CHR 0x0A, CHR 0x0B, CHR 0x0C, CHR 0x0D])"

text \<open>
  \<open>s.split(None, 1)\<close>: leading whitespace is skipped, the first token ends at the next
  whitespace, and whatever follows the whitespace after it is the second element, kept
  as it is. There are never more than two elements.
\<close>

definition split_None_1 :: "string \<Rightarrow> string list" where
  "split_None_1 s =
     (let s1 = dropWhile isspace s;
          tok = takeWhile (\<lambda>c. \<not> isspace c) s1;
          s2 = dropWhile isspace (dropWhile (\<lambda>c. \<not> isspace c) s1)
      in if tok = [] then [] else if s2 = [] then [tok] else [tok, s2])"

section \<open>StatusCodes\<close>

definition StatusCodes_OK :: string where
  "StatusCodes_OK = ''OK Others might say 'HELLA AWESOME'...but we're not convinced.''"

definition StatusCodes_RETRY :: string where
  "StatusCodes_RETRY = ''RETRY Server is busy plotting revolution; requests might take a while.''"

definition StatusCodes_BAD :: string where
  "StatusCodes_BAD = ''BAD bad Leroy Brown, baddest man in the whole...er. Malformed request.''"

definition StatusCodes_NOKEY :: string where
  "StatusCodes_NOKEY = ''NOKEY Couldn't find your keys, sorry. Did you check in the sofa?''"

definition StatusCodes_DEFER :: string where
  "StatusCodes_DEFER = ''DEFER_IF_LOCAL xxx fill me in''"

definition StatusCodes_DENY :: string where
  "StatusCodes_DENY = ''DENY no gurlz aloud in teh tree house.''"

definition StatusCodes_FAIL :: string where
  "StatusCodes_FAIL = ''FAIL this belongs on the failblog''"

definition SMTPCodes :: "(string \<times> string) list" where
  "SMTPCodes = [(''200'', StatusCodes_OK), (''400'', StatusCodes_RETRY), (''500'', StatusCodes_BAD),
     (''550'', StatusCodes_NOKEY), (''552'', StatusCodes_DEFER), (''553'', StatusCodes_DENY),
     (''554'', StatusCodes_FAIL)]"

definition SMTPStrings :: "(string \<times> int) list" where
  "SMTPStrings = [(''OK'', 200), (''RETRY'', 400), (''BAD'', 500), (''NOKEY'', 550),
     (''DEFER'', 552), (''DENY'', 553), (''FAIL'', 554)]"

text \<open>\<open>getattr(self, name, '')\<close> on a \<open>StatusCodes\<close> object, for the message attributes.\<close>

definition getattr_StatusCodes :: "string \<Rightarrow> string" where
  "getattr_StatusCodes name =
     (case map_of [(''OK'', StatusCodes_OK), (''RETRY'', StatusCodes_RETRY), (''BAD'', StatusCodes_BAD),
        (''NOKEY'', StatusCodes_NOKEY), (''DEFER'', StatusCodes_DEFER), (''DENY'', StatusCodes_DENY),
        (''FAIL'', StatusCodes_FAIL)] name of Some v \<Rightarrow> v | None \<Rightarrow> [])"

text \<open>
  The loop of \<open>StatusCodes.get\<close> over \<open>SMTPCodes.items()\<close>: the first entry whose key is
  \<open>str(status_code)\<close> and is not \<open>'500'\<close> is returned; when the loop runs out the result
  is \<open>(None, '')\<close> (the \<open>NOKEY\<close> text goes to the debug log only).
\<close>

fun SMTPCodes_loop :: "(string \<times> string) list \<Rightarrow> int \<Rightarrow> int option \<times> string" where
  "SMTPCodes_loop [] status_code = (None, [])"
| "SMTPCodes_loop ((k, v) # items) status_code =
     (if k = str_int status_code \<and> k \<noteq> ''500'' then (Some status_code, v)
      else SMTPCodes_loop items status_code)"

text \<open>
  \<open>StatusCodes.get\<close>. The result is \<open>Inl\<close> for a raised fault, \<open>Inr None\<close> when the
  method falls off its end (Python's \<open>None\<close>), and \<open>Inr (Some (code, text))\<close> for a
  returned pair, whose first component may itself be \<open>None\<close>. The dictionary
  \<open>SMTPStrings\<close> is indexed with the name as given, not with its upper-case form.
\<close>

definition StatusCodes_get :: "pyval \<Rightarrow> error + (int option \<times> string) option" where
  "StatusCodes_get status_code =
     (if truthy status_code then
        (case status_code of
           PStr s \<Rightarrow>
             (if upper s \<in> set (map fst SMTPStrings) then
                (case map_of SMTPStrings s of
                   Some c \<Rightarrow> Inr (Some (Some c, getattr_StatusCodes (upper s)))
                 | None \<Rightarrow> Inl KeyError)
              else Inr (Some (Some 500, StatusCodes_FAIL)))
         | PInt n \<Rightarrow> Inr (Some (SMTPCodes_loop SMTPCodes n))
         | PNone \<Rightarrow> Inr None)
      else Inr None)"

section \<open>AliasResolver: the protocol session\<close>

text \<open>
  A session owns its transport; \<open>sendLine\<close> writes one line to it. The lines written so
  far are the session's state. Logging (\<open>log.err\<close>, \<open>log.warn\<close>, \<open>log.debug\<close>) has no
  effect on replies or on the backend and is left out.
\<close>

record session =
  lines :: "string list"

definition sendLine :: "string \<Rightarrow> session \<Rightarrow> session" where
  "sendLine line s = s\<lparr>lines := lines s @ [line]\<rparr>"

text \<open>
  \<open>AliasResolver.sendCode\<close>. A code that is not an int fails the assertion, which is
  caught and answered with a line of its own; the method then goes on. A \<open>str\<close> message
  is appended to the result of \<open>StatusCodes.get\<close> with \<open>+=\<close>; that result is a pair or
  \<open>None\<close>, never a string, so the statement raises \<open>TypeError\<close>. The line that is sent
  is formatted from the code and \<open>message or ''\<close> only, and formatting a code that is
  not a number with \<open>%d\<close> raises \<open>TypeError\<close>.
\<close>

definition sendCode :: "pyval \<Rightarrow> pyval \<Rightarrow> session \<Rightarrow> (error + unit) \<times> session" where
  "sendCode code message s =
     (let s1 = (case code of
                  PInt n \<Rightarrow> s
                | _ \<Rightarrow> sendLine (''500 internal server error: '' @ ''status code must be type int'') s)
      in case StatusCodes_get code of
           Inl e \<Rightarrow> (Inl e, s1)
         | Inr msg \<Rightarrow>
             (case message of
                PStr m \<Rightarrow> (Inl TypeError, s1)
              | _ \<Rightarrow>
                  (case code of
                     PInt n \<Rightarrow>
                       (Inr (), sendLine (fmt_3_3d n @ '' '' @ (if truthy message then fmt_s message else [])) s1)
                   | _ \<Rightarrow> (Inl TypeError, s1))))"

section \<open>The backend adapter\<close>

type_synonym connect_args = "string \<times> int option \<times> string option \<times> string option \<times> string option"

text \<open>
  Modelled from the spec: the module \<open>leap.mx.couchdb\<close> (class \<open>ConnectedCouchDB\<close>) is
  imported by the source but is not part of it. The spec gives the contract:
  \<open>connect(host, port, dbName, username, password)\<close> yields a connection handle, and
  \<open>queryByEmailOrAlias(key)\<close> yields an optional value, absence being a normal outcome.
  An asynchronous result is represented by its eventual value. The handle records the
  keys it was queried with, so that "no backend call" can be stated.
\<close>

record couchdb =
  conn_args :: connect_args
  docs :: "string \<rightharpoonup> string"
  queried :: "string list"

definition ConnectedCouchDB :: "(string \<rightharpoonup> string) \<Rightarrow> connect_args \<Rightarrow> couchdb" where
  "ConnectedCouchDB store args = \<lparr>conn_args = args, docs = store, queried = []\<rparr>"

definition queryByEmailOrAlias :: "couchdb \<Rightarrow> string \<Rightarrow> string option \<times> couchdb" where
  "queryByEmailOrAlias c key = (docs c key, c\<lparr>queried := queried c @ [key]\<rparr>)"

section \<open>AliasResolverFactory\<close>

text \<open>
  The fields of the factory that concern the backend: the flag \<open>database_connected\<close>, the
  attribute \<open>couch\<close> (absent until \<open>__init__\<close> assigns it), and the connection attempts
  issued so far through \<open>self.database(...)\<close>, in order.
\<close>

record factory =
  database_connected :: bool
  couch :: "couchdb option"
  attempts :: "connect_args list"

text \<open>
  \<open>_cb_connectDatabase\<close>: the body of the method that \<open>connectDatabase\<close> attaches to an
  attempt. It is the only place where the flag is set.
\<close>

definition cb_connectDatabase :: "factory \<Rightarrow> factory" where
  "cb_connectDatabase f = f\<lparr>database_connected := True\<rparr>"

text \<open>
  \<open>connectDatabase\<close>. The only test is the flag: while it is false every call issues a
  new attempt through the class attribute \<open>database\<close> (a parameter here) and returns it;
  when it is true the attribute \<open>couch\<close> is returned.
\<close>

definition connectDatabase ::
    "(connect_args \<Rightarrow> couchdb) \<Rightarrow> factory \<Rightarrow> connect_args \<Rightarrow> (error + couchdb) \<times> factory" where
  "connectDatabase database f args =
     (if \<not> database_connected f then
        (Inr (database args), f\<lparr>attempts := attempts f @ [args]\<rparr>)
      else
        (case couch f of
           None \<Rightarrow> (Inl AttributeError, f)
         | Some c \<Rightarrow> (Inr c, f)))"

text \<open>
  The part of \<open>__init__\<close> that sets up the backend: the defaults of port and database
  name, the flag, and the first connection attempt when a host is given.
\<close>

definition Factory_init ::
    "(connect_args \<Rightarrow> couchdb) \<Rightarrow> string option \<Rightarrow> int option \<Rightarrow> string option \<Rightarrow>
     string option \<Rightarrow> string option \<Rightarrow> error + factory" where
  "Factory_init database couch_host couch_port couch_dbname couch_username couch_password =
     (let couch_port = (if couch_port = None then Some 5984 else couch_port);
          couch_dbname = (if couch_dbname = None then Some ''users'' else couch_dbname);
          f = \<lparr>database_connected = False, couch = None, attempts = []\<rparr>
      in case couch_host of
           None \<Rightarrow> Inr f
         | Some host \<Rightarrow>
             (case connectDatabase database f
                     (host, couch_port, couch_dbname, couch_username, couch_password) of
                (Inl e, f') \<Rightarrow> Inl e
              | (Inr d, f') \<Rightarrow> Inr (f'\<lparr>couch := Some d\<rparr>)))"

text \<open>\<open>AliasResolverFactory.get\<close>.\<close>

definition Factory_get :: "factory \<Rightarrow> string \<Rightarrow> (error + string option) \<times> factory" where
  "Factory_get f key =
     (if database_connected f then
        (case couch f of
           None \<Rightarrow> (Inl AttributeError, f)
         | Some c \<Rightarrow>
             (case queryByEmailOrAlias c key of
                (v, c') \<Rightarrow> (Inr v, f\<lparr>couch := Some c'\<rparr>)))
      else (Inl DatabaseNotConnected, f))"

text \<open>
  \<open>AliasResolverFactory.put\<close> is declared as \<open>put(self, key, **kwargs)\<close> and its body is
  \<open>raise NotImplemented\<close>. The argument is the list of positional arguments of the call:
  with one, the body runs and raises \<open>TypeError\<close> (\<open>NotImplemented\<close> is not an exception);
  with any other number the call itself raises \<open>TypeError\<close>. No branch touches the
  backend.
\<close>

definition Factory_put :: "factory \<Rightarrow> string list \<Rightarrow> (error + unit) \<times> factory" where
  "Factory_put f args =
     (case args of
        [key] \<Rightarrow> (Inl TypeError, f)
      | _ \<Rightarrow> (Inl TypeError, f))"

text \<open>What the backend of a factory holds for a key.\<close>

definition stored :: "factory \<Rightarrow> string \<Rightarrow> string option" where
  "stored f key = (case couch f of None \<Rightarrow> None | Some c \<Rightarrow> docs c key)"

section \<open>The verbs of the session\<close>

text \<open>
  The callbacks \<open>_cbGot\<close>, \<open>_cbNot\<close>, \<open>_cbPut\<close> and \<open>_cbPout\<close> and the method \<open>do_query\<close>
  are used by the source but not defined in it; they are parameters of the verbs. A
  callback receives the outcome and acts on the session. A fault raised by a callback
  stays in the deferred (it is handed to the logger) and is not raised by the verb.
\<close>

type_synonym 'a callback = "'a \<Rightarrow> session \<Rightarrow> (error + unit) \<times> session"

type_synonym query = "string \<Rightarrow> session \<times> factory \<Rightarrow> (error + string option) \<times> session \<times> factory"

text \<open>\<open>do_get\<close>: the key is \<open>None\<close> when the request has no argument.\<close>

definition do_get ::
    "string option callback \<Rightarrow> error callback \<Rightarrow> string option \<Rightarrow> session \<times> factory \<Rightarrow>
     (error + unit) \<times> session \<times> factory" where
  "do_get cbGot cbNot key sf =
     (case key of
        None \<Rightarrow> (case sendCode (PInt 500) PNone (fst sf) of (r, s') \<Rightarrow> (r, s', snd sf))
      | Some k \<Rightarrow>
          (case Factory_get (snd sf) k of
             (Inr v, f') \<Rightarrow> (Inr (), snd (cbGot v (fst sf)), f')
           | (Inl e, f') \<Rightarrow> (Inr (), snd (cbNot e (fst sf)), f')))"

text \<open>
  \<open>do_put\<close>. The result is the outcome of the deferred that \<open>inlineCallbacks\<close> returns:
  a fault of the existence check ends the generator and becomes that outcome.
\<close>

definition do_put ::
    "query \<Rightarrow> unit callback \<Rightarrow> error callback \<Rightarrow> string option \<Rightarrow> session \<times> factory \<Rightarrow>
     (error + unit) \<times> session \<times> factory" where
  "do_put do_query cbPut cbPout keyAndValue sf =
     (case keyAndValue of
        None \<Rightarrow> (case sendCode (PInt 500) PNone (fst sf) of (r, s') \<Rightarrow> (r, s', snd sf))
      | Some kv \<Rightarrow>
          (case split_None_1 kv of
             [key, val] \<Rightarrow>
               (case do_query key sf of
                  (Inl e, s1, f1) \<Rightarrow> (Inl e, s1, f1)
                | (Inr alreadyThere, s1, f1) \<Rightarrow>
                    (case alreadyThere of
                       None \<Rightarrow>
                         (case Factory_put f1 [key, val] of
                            (Inr r, f2) \<Rightarrow> (Inr (), snd (cbPut r s1), f2)
                          | (Inl e, f2) \<Rightarrow> (Inr (), snd (cbPout e s1), f2))
                     | Some v \<Rightarrow>
                         (case sendCode (PInt 553) PNone s1 of (r, s2) \<Rightarrow> (r, s2, f1))))
           | _ \<Rightarrow> (case sendCode (PInt 500) PNone (fst sf) of (r, s') \<Rightarrow> (r, s', snd sf))))"

text \<open>
  Modelled from the spec: \<open>do_query\<close>, which \<open>do_put\<close> calls and the source does not
  define, is "an existence check equivalent to \<open>get(key)\<close>": the lookup of the factory.
\<close>

definition do_query :: query where
  "do_query key sf = (case Factory_get (snd sf) key of (r, f') \<Rightarrow> (r, fst sf, f'))"

text \<open>
  \<open>do_delete\<close>: the body is \<open>raise NotImplemented\<close>, which raises \<open>TypeError\<close> for every
  argument before anything is sent.
\<close>

definition do_delete :: "string option \<Rightarrow> session \<times> factory \<Rightarrow> (error + unit) \<times> session \<times> factory" where
  "do_delete key sf = (Inl TypeError, fst sf, snd sf)"

text \<open>\<open>check_recipient_access\<close> is \<open>do_get\<close>.\<close>

definition check_recipient_access ::
    "string option callback \<Rightarrow> error callback \<Rightarrow> string option \<Rightarrow> session \<times> factory \<Rightarrow>
     (error + unit) \<times> session \<times> factory" where
  "check_recipient_access cbGot cbNot key sf = do_get cbGot cbNot key sf"

section \<open>Auxiliary definitions for the proofs\<close>

text \<open>A callback that sends nothing, to run the verbs on concrete requests.\<close>

definition silent :: "'a callback" where
  "silent x s = (Inr (), s)"

text \<open>
  Concrete states for running the verbs: a session that has sent nothing, a factory whose
  backend is connected and holds \<open>isis \<mapsto> isis@leap.se\<close> (the example of the factory's
  docstring), and a factory as \<open>__init__\<close> leaves it, with its first attempt issued and
  the flag still false.
\<close>

definition local_couch_args :: connect_args where
  "local_couch_args = (''127.0.0.1'', Some 5984, Some ''users'', None, None)"

definition no_lines :: session where
  "no_lines = \<lparr>lines = []\<rparr>"

definition connected_factory :: factory where
  "connected_factory =
     \<lparr>database_connected = True,
      couch = Some (ConnectedCouchDB [''isis'' \<mapsto> ''isis@leap.se''] local_couch_args),
      attempts = [local_couch_args]\<rparr>"

definition connecting_factory :: factory where
  "connecting_factory =
     \<lparr>database_connected = False,
      couch = Some (ConnectedCouchDB Map.empty local_couch_args),
      attempts = [local_couch_args]\<rparr>"

text \<open>Reading a decimal numeral back, the inverse of \<open>digits\<close>.\<close>

definition digit_val :: "char \<Rightarrow> nat" where
  "digit_val c = (case map_of (zip ''0123456789'' [0, 1, 2, 3, 4, 5, 6, 7, 8, 9]) c of
     Some d \<Rightarrow> d | None \<Rightarrow> 0)"

definition digits_val :: "string \<Rightarrow> nat" where
  "digits_val s = foldl (\<lambda>a c. 10 * a + digit_val c) 0 s"

section \<open>Decimal rendering\<close>

lemma below_ten_cases:
  assumes "d < (10::nat)"
  obtains "d = 0" | "d = 1" | "d = 2" | "d = 3" | "d = 4" | "d = 5" | "d = 6" | "d = 7"
    | "d = 8" | "d = 9"
  using assms by atomize_elim arith

lemma digit_val_digit_char: "d < 10 \<Longrightarrow> digit_val (digit_char d) = d"
  by (erule below_ten_cases) (simp_all add: digit_val_def digit_char_def)


lemma digits_val_snoc: "digits_val (s @ [c]) = 10 * digits_val s + digit_val c"
  by (simp add: digits_val_def)

lemma digits_val_digits: "digits_val (digits n) = n"
proof (induction n rule: digits.induct)
  case (1 n)
  show ?case
  proof (cases "n < 10")
    case True
    then show ?thesis
      by (subst digits.simps) (simp add: digits_val_def digit_val_digit_char)
  next
    case False
    with 1 show ?thesis
      by (subst digits.simps) (simp add: digits_val_snoc digit_val_digit_char)
  qed
qed


lemma str_int_digits:
  assumes "str_int n = k" and "CHR ''-'' \<notin> set k"
  shows "n = int (digits_val k)"
proof -
  have nonneg: "\<not> n < 0"
  proof
    assume "n < 0"
    then have "str_int n = CHR ''-'' # digits (nat \<bar>n\<bar>)" by (simp add: str_int_def)
    with assms show False by auto
  qed
  then have "digits (nat n) = k" using assms(1) by (simp add: str_int_def)
  then have "digits_val k = nat n" using digits_val_digits [of "nat n"] by simp
  with nonneg show ?thesis by simp
qed

section \<open>The status-code registry\<close>

lemma SMTPCodes_loop_unknown:
  assumes "n \<notin> {200, 400, 550, 552, 553, 554}"
  shows "SMTPCodes_loop SMTPCodes n = (None, [])"
proof -
  have "str_int n \<noteq> k" if "k \<in> {''200'', ''400'', ''550'', ''552'', ''553'', ''554''}" for k
  proof
    assume "str_int n = k"
    moreover have "CHR ''-'' \<notin> set k" using that by auto
    ultimately have "n = int (digits_val k)" by (rule str_int_digits)
    with that assms show False by (auto simp: digits_val_def digit_val_def)
  qed
  then have "\<forall>k \<in> {''200'', ''400'', ''550'', ''552'', ''553'', ''554''}. k \<noteq> str_int n"
    by blast
  then show ?thesis by (simp add: SMTPCodes_def)
qed

lemma str_int_known:
  "str_int 200 = ''200''" "str_int 400 = ''400''" "str_int 550 = ''550''"
  "str_int 552 = ''552''" "str_int 553 = ''553''" "str_int 554 = ''554''"
  by (simp_all add: str_int_def digits.simps digit_char_def)

lemma SMTPCodes_loop_known:
  "SMTPCodes_loop SMTPCodes 200 = (Some 200, StatusCodes_OK)"
  "SMTPCodes_loop SMTPCodes 400 = (Some 400, StatusCodes_RETRY)"
  "SMTPCodes_loop SMTPCodes 550 = (Some 550, StatusCodes_NOKEY)"
  "SMTPCodes_loop SMTPCodes 552 = (Some 552, StatusCodes_DEFER)"
  "SMTPCodes_loop SMTPCodes 553 = (Some 553, StatusCodes_DENY)"
  "SMTPCodes_loop SMTPCodes 554 = (Some 554, StatusCodes_FAIL)"
  by (simp_all add: SMTPCodes_def str_int_known)

lemma StatusCodes_get_known_names:
  "StatusCodes_get (PStr ''OK'') = Inr (Some (Some 200, StatusCodes_OK))"
  "StatusCodes_get (PStr ''RETRY'') = Inr (Some (Some 400, StatusCodes_RETRY))"
  "StatusCodes_get (PStr ''BAD'') = Inr (Some (Some 500, StatusCodes_BAD))"
  "StatusCodes_get (PStr ''NOKEY'') = Inr (Some (Some 550, StatusCodes_NOKEY))"
  "StatusCodes_get (PStr ''DEFER'') = Inr (Some (Some 552, StatusCodes_DEFER))"
  "StatusCodes_get (PStr ''DENY'') = Inr (Some (Some 553, StatusCodes_DENY))"
  "StatusCodes_get (PStr ''FAIL'') = Inr (Some (Some 554, StatusCodes_FAIL))"
  by (simp_all add: StatusCodes_get_def SMTPStrings_def upper_def upper_char_def
      getattr_StatusCodes_def)

lemma StatusCodes_get_other_name:
  "name \<noteq> [] \<Longrightarrow> upper name \<notin> set (map fst SMTPStrings) \<Longrightarrow>
   StatusCodes_get (PStr name) = Inr (Some (Some 500, StatusCodes_FAIL))"
  by (simp add: StatusCodes_get_def)

lemma StatusCodes_get_int: "StatusCodes_get (PInt n) = Inr (if n = 0 then None else Some (SMTPCodes_loop SMTPCodes n))"
  by (simp add: StatusCodes_get_def)

text \<open>
  Claim C3, as the code has it. Every variant name written in capitals yields its pair of
  numeric code and text (OK 200, RETRY 400, BAD 500, NOKEY 550, DEFER 552, DENY 553,
  FAIL 554). A non-empty name whose upper-case form is no variant name yields 500 with
  the FAIL text. Every numeric code of the table other than 500 yields itself with its
  text. The code 500 and every non-zero code outside the table yield no numeric code and
  the empty text.
\<close>

theorem StatusCodes_get_table:
  "StatusCodes_get (PStr ''OK'') = Inr (Some (Some 200, StatusCodes_OK)) \<and>
   StatusCodes_get (PStr ''RETRY'') = Inr (Some (Some 400, StatusCodes_RETRY)) \<and>
   StatusCodes_get (PStr ''BAD'') = Inr (Some (Some 500, StatusCodes_BAD)) \<and>
   StatusCodes_get (PStr ''NOKEY'') = Inr (Some (Some 550, StatusCodes_NOKEY)) \<and>
   StatusCodes_get (PStr ''DEFER'') = Inr (Some (Some 552, StatusCodes_DEFER)) \<and>
   StatusCodes_get (PStr ''DENY'') = Inr (Some (Some 553, StatusCodes_DENY)) \<and>
   StatusCodes_get (PStr ''FAIL'') = Inr (Some (Some 554, StatusCodes_FAIL)) \<and>
   (name \<noteq> [] \<and> upper name \<notin> set (map fst SMTPStrings) \<longrightarrow>
      StatusCodes_get (PStr name) = Inr (Some (Some 500, StatusCodes_FAIL))) \<and>
   StatusCodes_get (PInt 200) = Inr (Some (Some 200, StatusCodes_OK)) \<and>
   StatusCodes_get (PInt 400) = Inr (Some (Some 400, StatusCodes_RETRY)) \<and>
   StatusCodes_get (PInt 550) = Inr (Some (Some 550, StatusCodes_NOKEY)) \<and>
   StatusCodes_get (PInt 552) = Inr (Some (Some 552, StatusCodes_DEFER)) \<and>
   StatusCodes_get (PInt 553) = Inr (Some (Some 553, StatusCodes_DENY)) \<and>
   StatusCodes_get (PInt 554) = Inr (Some (Some 554, StatusCodes_FAIL)) \<and>
   (n \<noteq> 0 \<and> n \<notin> {200, 400, 550, 552, 553, 554} \<longrightarrow>
      StatusCodes_get (PInt n) = Inr (Some (None, [])))"
  by (simp only: StatusCodes_get_known_names StatusCodes_get_int SMTPCodes_loop_known)
     (simp add: StatusCodes_get_other_name SMTPCodes_loop_unknown)

text \<open>The table at the name \<open>HELLO\<close> and at the code 999.\<close>

theorem StatusCodes_get_table_witness:
  "StatusCodes_get (PStr ''HELLO'') = Inr (Some (Some 500, StatusCodes_FAIL)) \<and>
   StatusCodes_get (PInt 999) = Inr (Some (None, []))"
  using StatusCodes_get_table [of "''HELLO''" 999]
  by (simp add: upper_def upper_char_def SMTPStrings_def)

text \<open>
  The claim as written fails: for the unknown code 999 the text is empty, not the NOKEY
  text, and the known code 500 does not yield the BAD text.
\<close>

theorem StatusCodes_get_unknown_code_empty_text:
  "StatusCodes_get (PInt 999) = Inr (Some (None, [])) \<and>
   StatusCodes_get (PInt 999) \<noteq> Inr (Some (None, StatusCodes_NOKEY)) \<and>
   StatusCodes_get (PInt 500) \<noteq> Inr (Some (Some 500, StatusCodes_BAD))"
  by (simp add: StatusCodes_get_int SMTPCodes_loop_unknown StatusCodes_NOKEY_def)

section \<open>Sending a status line\<close>



lemma fmt_3_3d_known:
  "fmt_3_3d 200 = ''200''" "fmt_3_3d 500 = ''500''" "fmt_3_3d 553 = ''553''"
  by (simp_all add: fmt_3_3d_def digits.simps digit_char_def)

lemma sendCode_int_no_message:
  "sendCode (PInt n) PNone s = (Inr (), sendLine (fmt_3_3d n @ '' '') s)"
  by (simp add: sendCode_def StatusCodes_get_int)


lemma sendCode_500: "sendCode (PInt 500) PNone s = (Inr (), sendLine ''500 '' s)"
  by (simp add: sendCode_int_no_message fmt_3_3d_known)

lemma sendCode_553: "sendCode (PInt 553) PNone s = (Inr (), sendLine ''553 '' s)"
  by (simp add: sendCode_int_no_message fmt_3_3d_known)




section \<open>The verbs\<close>

lemma do_get_None: "do_get cbGot cbNot None (s, f) = (Inr (), sendLine ''500 '' s, f)"
  by (simp add: do_get_def sendCode_500)

lemma do_get_Some_connected:
  "database_connected f \<Longrightarrow> couch f = Some c \<Longrightarrow>
   do_get cbGot cbNot (Some key) (s, f) =
     (Inr (), snd (cbGot (docs c key) s), f\<lparr>couch := Some (c\<lparr>queried := queried c @ [key]\<rparr>)\<rparr>)"
  by (simp add: do_get_def Factory_get_def queryByEmailOrAlias_def)

lemma Factory_get_connected:
  "database_connected f \<Longrightarrow> couch f = Some c \<Longrightarrow>
   Factory_get f key = (Inr (docs c key), f\<lparr>couch := Some (c\<lparr>queried := queried c @ [key]\<rparr>)\<rparr>)"
  by (simp add: Factory_get_def queryByEmailOrAlias_def)


lemma Factory_put_fails: "Factory_put f args = (Inl TypeError, f)"
  by (simp add: Factory_put_def split: list.splits)

lemma do_put_None: "do_put dq cbPut cbPout None (s, f) = (Inr (), sendLine ''500 '' s, f)"
  by (simp add: do_put_def sendCode_500)

lemma do_put_malformed:
  "length (split_None_1 kv) \<noteq> 2 \<Longrightarrow>
   do_put dq cbPut cbPout (Some kv) (s, f) = (Inr (), sendLine ''500 '' s, f)"
  by (auto simp: do_put_def sendCode_500 split: list.splits)


lemma do_query_connected:
  "database_connected f \<Longrightarrow> couch f = Some c \<Longrightarrow>
   do_query key (s, f) = (Inr (docs c key), s, f\<lparr>couch := Some (c\<lparr>queried := queried c @ [key]\<rparr>)\<rparr>)"
  by (simp add: do_query_def Factory_get_connected)


lemma stored_after_query:
  "couch f = Some c \<Longrightarrow> stored (f\<lparr>couch := Some (c\<lparr>queried := q\<rparr>)\<rparr>) = stored f"
  by (rule ext) (simp add: stored_def)

lemma split_None_1_single:
  assumes "\<forall>c \<in> set kv. \<not> isspace c"
  shows "length (split_None_1 kv) \<le> 1"
proof -
  have 1: "dropWhile isspace kv = kv" using assms by (cases kv) simp_all
  have 2: "dropWhile (\<lambda>c. \<not> isspace c) kv = []" using assms by simp
  show ?thesis unfolding split_None_1_def Let_def 1 2 by simp
qed

lemma split_None_1_pair:
  assumes "key \<noteq> []" and "\<forall>c \<in> set key. \<not> isspace c" and "rest \<noteq> []" and "\<not> isspace (hd rest)"
  shows "split_None_1 (key @ '' '' @ rest) = [key, rest]"
proof -
  have sp: "isspace CHR '' ''" by (simp add: isspace_def)
  have 1: "dropWhile isspace (key @ '' '' @ rest) = key @ '' '' @ rest"
    using assms(1,2) by (cases key) simp_all
  have 2: "takeWhile (\<lambda>c. \<not> isspace c) (key @ '' '' @ rest) = key"
    using assms(2) sp by (simp add: takeWhile_tail)
  have 3: "dropWhile (\<lambda>c. \<not> isspace c) (key @ '' '' @ rest) = '' '' @ rest"
    using assms(2) sp by simp
  have 4: "dropWhile isspace ('' '' @ rest) = rest"
    using assms(3,4) sp by (cases rest) simp_all
  show ?thesis
    unfolding split_None_1_def Let_def 1 2 3 4 using assms(1,3) by simp
qed

lemma split_examples:
  "split_None_1 ''onlyonetoken'' = [''onlyonetoken'']"
  "split_None_1 ''isis x@y'' = [''isis'', ''x@y'']"
  "split_None_1 ''drebs drebs@leap.se'' = [''drebs'', ''drebs@leap.se'']"
  "split_None_1 ''isis isis@leap.se extra'' = [''isis'', ''isis@leap.se extra'']"
  by (simp_all add: split_None_1_def isspace_def)

section \<open>Claims about the session\<close>

text \<open>
  Claim C2, as the code has it. For every key argument the delete operation raises a
  fault before anything is sent: it writes no response line and leaves the session and
  the factory as they were.
\<close>

theorem do_delete_raises:
  "fst (do_delete key (s, f)) = Inl TypeError \<and>
   fst (snd (do_delete key (s, f))) = s \<and>
   snd (snd (do_delete key (s, f))) = f"
  by (simp add: do_delete_def)

text \<open>
  The claim as written fails: \<open>delete anything\<close> ends in a raised fault and no line,
  where the claim asks for a 500 reply and no fault.
\<close>

theorem do_delete_sends_no_reply:
  "fst (do_delete (Some ''anything'') (no_lines, connected_factory)) = Inl TypeError \<and>
   lines (fst (snd (do_delete (Some ''anything'') (no_lines, connected_factory)))) = []"
  by (simp add: do_delete_def no_lines_def)




text \<open>
  Claim C7, as the code has it. A get request without a key (\<open>None\<close>) is answered at once
  with the line \<open>500\<close>, and the factory is not touched. Every key that is present, the
  empty string included, is looked up in the backend when the factory is connected.
\<close>

theorem do_get_missing_key:
  "do_get cbGot cbNot None (s, f) = (Inr (), sendLine ''500 '' s, f) \<and>
   (database_connected f \<and> couch f = Some c \<longrightarrow>
      do_get cbGot cbNot (Some key) (s, f) =
        (Inr (), snd (cbGot (docs c key) s), f\<lparr>couch := Some (c\<lparr>queried := queried c @ [key]\<rparr>)\<rparr>))"
  by (simp add: do_get_None do_get_Some_connected)

text \<open>A get without a key, and a get of \<open>isis\<close>, on the connected factory.\<close>

theorem do_get_missing_key_witness:
  "do_get silent silent None (no_lines, connected_factory) =
     (Inr (), \<lparr>lines = [''500 '']\<rparr>, connected_factory) \<and>
   do_get silent silent (Some ''isis'') (no_lines, connected_factory) =
     (Inr (), no_lines,
      connected_factory\<lparr>couch := Some ((ConnectedCouchDB [''isis'' \<mapsto> ''isis@leap.se''] local_couch_args)
        \<lparr>queried := [''isis'']\<rparr>)\<rparr>)"
  using do_get_missing_key [of silent silent no_lines connected_factory
      "ConnectedCouchDB [''isis'' \<mapsto> ''isis@leap.se''] local_couch_args" "''isis''"]
  by (simp add: connected_factory_def no_lines_def sendLine_def silent_def ConnectedCouchDB_def)

text \<open>
  The claim as written fails: for the empty key no line is sent and the backend is
  queried with the empty string.
\<close>

theorem do_get_empty_key_queries_backend:
  "lines (fst (snd (do_get silent silent (Some []) (no_lines, connected_factory)))) = [] \<and>
   map_option queried (couch (snd (snd (do_get silent silent (Some []) (no_lines, connected_factory)))))
     = Some [[]]"
  by (simp add: do_get_def Factory_get_def queryByEmailOrAlias_def connected_factory_def
      no_lines_def silent_def ConnectedCouchDB_def)

section \<open>Claims about the factory\<close>



text \<open>
  Claim C5. For every key that has a stored value, \<open>put(key, value)\<close> replies with the
  line \<open>553\<close> and does not modify storage: what the backend holds is the same
  afterwards, and the key still has its value.
\<close>

theorem do_put_existing_key_denied:
  "split_None_1 kv = [key, val] \<and> database_connected f \<and> couch f = Some c \<and> docs c key = Some v \<longrightarrow>
     do_put do_query cbPut cbPout (Some kv) (s, f) =
       (Inr (), sendLine ''553 '' s, f\<lparr>couch := Some (c\<lparr>queried := queried c @ [key]\<rparr>)\<rparr>) \<and>
     stored (snd (snd (do_put do_query cbPut cbPout (Some kv) (s, f)))) = stored f \<and>
     stored (snd (snd (do_put do_query cbPut cbPout (Some kv) (s, f)))) key = Some v"
proof (intro impI)
  assume a: "split_None_1 kv = [key, val] \<and> database_connected f \<and> couch f = Some c \<and> docs c key = Some v"
  then have q: "do_query key (s, f) =
      (Inr (Some v), s, f\<lparr>couch := Some (c\<lparr>queried := queried c @ [key]\<rparr>)\<rparr>)"
    by (simp add: do_query_connected)
  from a have e: "do_put do_query cbPut cbPout (Some kv) (s, f) =
      (Inr (), sendLine ''553 '' s, f\<lparr>couch := Some (c\<lparr>queried := queried c @ [key]\<rparr>)\<rparr>)"
    using q by (simp add: do_put_def sendCode_553)
  from a have st: "stored (f\<lparr>couch := Some (c\<lparr>queried := queried c @ [key]\<rparr>)\<rparr>) = stored f"
    by (simp add: stored_after_query)
  from a have "stored f key = Some v" by (simp add: stored_def)
  with e st show "do_put do_query cbPut cbPout (Some kv) (s, f) =
       (Inr (), sendLine ''553 '' s, f\<lparr>couch := Some (c\<lparr>queried := queried c @ [key]\<rparr>)\<rparr>) \<and>
     stored (snd (snd (do_put do_query cbPut cbPout (Some kv) (s, f)))) = stored f \<and>
     stored (snd (snd (do_put do_query cbPut cbPout (Some kv) (s, f)))) key = Some v"
    by simp
qed

text \<open>The put of \<open>isis x@y\<close> on the backend that holds \<open>isis\<close>.\<close>

theorem do_put_existing_key_denied_witness:
  "lines (fst (snd (do_put do_query silent silent (Some ''isis x@y'') (no_lines, connected_factory))))
     = [''553 ''] \<and>
   stored (snd (snd (do_put do_query silent silent (Some ''isis x@y'') (no_lines, connected_factory))))
     ''isis'' = Some ''isis@leap.se''"
  using do_put_existing_key_denied [of "''isis x@y''" "''isis''" "''x@y''" connected_factory
      "ConnectedCouchDB [''isis'' \<mapsto> ''isis@leap.se''] local_couch_args" "''isis@leap.se''"
      silent silent no_lines]
  by (simp add: split_examples connected_factory_def ConnectedCouchDB_def no_lines_def sendLine_def
      stored_def)

text \<open>
  Claim C6, as the code has it. For every key absent from the backend, \<open>put(key, value)\<close>
  calls \<open>Factory.put\<close>, which raises; the fault goes to the put errback, the success
  callback is never called, nothing is stored, and a following \<open>Factory.get(key)\<close> still
  finds no value.
\<close>

theorem do_put_absent_key_not_stored:
  "split_None_1 kv = [key, val] \<and> database_connected f \<and> couch f = Some c \<and> docs c key = None \<longrightarrow>
     do_put do_query cbPut cbPout (Some kv) (s, f) =
       (Inr (), snd (cbPout TypeError s), f\<lparr>couch := Some (c\<lparr>queried := queried c @ [key]\<rparr>)\<rparr>) \<and>
     stored (snd (snd (do_put do_query cbPut cbPout (Some kv) (s, f)))) = stored f \<and>
     fst (Factory_get (snd (snd (do_put do_query cbPut cbPout (Some kv) (s, f)))) key) = Inr None"
proof (intro impI)
  let ?f' = "f\<lparr>couch := Some (c\<lparr>queried := queried c @ [key]\<rparr>)\<rparr>"
  assume a: "split_None_1 kv = [key, val] \<and> database_connected f \<and> couch f = Some c \<and> docs c key = None"
  then have q: "do_query key (s, f) = (Inr None, s, ?f')"
    by (simp add: do_query_connected)
  from a have e: "do_put do_query cbPut cbPout (Some kv) (s, f) =
      (Inr (), snd (cbPout TypeError s), ?f')"
    using q by (simp add: do_put_def Factory_put_fails)
  from a have st: "stored ?f' = stored f"
    by (simp add: stored_after_query)
  from a have g: "fst (Factory_get ?f' key) = Inr None"
    by (simp add: Factory_get_def queryByEmailOrAlias_def)
  from e st g show "do_put do_query cbPut cbPout (Some kv) (s, f) =
       (Inr (), snd (cbPout TypeError s), ?f') \<and>
     stored (snd (snd (do_put do_query cbPut cbPout (Some kv) (s, f)))) = stored f \<and>
     fst (Factory_get (snd (snd (do_put do_query cbPut cbPout (Some kv) (s, f)))) key) = Inr None"
    by simp
qed

text \<open>The put of \<open>drebs drebs@leap.se\<close> on the backend that holds \<open>isis\<close> only.\<close>

theorem do_put_absent_key_not_stored_witness:
  "do_put do_query silent silent (Some ''drebs drebs@leap.se'') (no_lines, connected_factory) =
     (Inr (), no_lines,
      connected_factory\<lparr>couch := Some ((ConnectedCouchDB [''isis'' \<mapsto> ''isis@leap.se''] local_couch_args)
        \<lparr>queried := [''drebs'']\<rparr>)\<rparr>)"
  using do_put_absent_key_not_stored [of "''drebs drebs@leap.se''" "''drebs''" "''drebs@leap.se''"
      connected_factory "ConnectedCouchDB [''isis'' \<mapsto> ''isis@leap.se''] local_couch_args"
      silent silent no_lines]
  by (simp add: split_examples connected_factory_def ConnectedCouchDB_def silent_def)

text \<open>
  The claim as written fails: \<open>Factory.put\<close> raises for \<open>drebs\<close>, and after the put the
  backend holds nothing for \<open>drebs\<close>, so the following get does not return the value.
\<close>

theorem put_then_get_finds_nothing:
  "fst (Factory_put connected_factory [''drebs'', ''drebs@leap.se'']) = Inl TypeError \<and>
   stored (snd (snd (do_put do_query silent silent (Some ''drebs drebs@leap.se'')
     (no_lines, connected_factory)))) ''drebs'' = None \<and>
   fst (Factory_get (snd (snd (do_put do_query silent silent (Some ''drebs drebs@leap.se'')
     (no_lines, connected_factory)))) ''drebs'') = Inr None"
  by (simp add: Factory_put_fails do_put_def split_examples do_query_def Factory_get_def
      queryByEmailOrAlias_def connected_factory_def ConnectedCouchDB_def stored_def)

text \<open>
  Claim C8, as the code has it. A put whose argument is missing or has fewer than two
  whitespace-separated tokens replies with the line \<open>500\<close> and leaves the factory
  untouched; a single token never splits in two. An argument with two or more tokens is
  accepted: it is split at the first whitespace into the key and all that follows as
  the value, and the key is looked up in the backend.
\<close>

theorem do_put_argument_shape:
  "do_put dq cbPut cbPout None (s, f) = (Inr (), sendLine ''500 '' s, f) \<and>
   (length (split_None_1 kv) \<noteq> 2 \<longrightarrow>
      do_put dq cbPut cbPout (Some kv) (s, f) = (Inr (), sendLine ''500 '' s, f)) \<and>
   ((\<forall>c \<in> set tok. \<not> isspace c) \<longrightarrow> length (split_None_1 tok) \<le> 1) \<and>
   (key \<noteq> [] \<and> (\<forall>c \<in> set key. \<not> isspace c) \<and> rest \<noteq> [] \<and> \<not> isspace (hd rest) \<longrightarrow>
      split_None_1 (key @ '' '' @ rest) = [key, rest]) \<and>
   (split_None_1 kv' = [k, v] \<and> database_connected f \<and> couch f = Some c \<longrightarrow>
      couch (snd (snd (do_put do_query cbPut cbPout (Some kv') (s, f)))) =
        Some (c\<lparr>queried := queried c @ [k]\<rparr>))"
proof (intro conjI impI)
  show "do_put dq cbPut cbPout None (s, f) = (Inr (), sendLine ''500 '' s, f)"
    by (rule do_put_None)
next
  assume "length (split_None_1 kv) \<noteq> 2"
  then show "do_put dq cbPut cbPout (Some kv) (s, f) = (Inr (), sendLine ''500 '' s, f)"
    by (rule do_put_malformed)
next
  assume "\<forall>c \<in> set tok. \<not> isspace c"
  then show "length (split_None_1 tok) \<le> 1" by (rule split_None_1_single)
next
  assume "key \<noteq> [] \<and> (\<forall>c \<in> set key. \<not> isspace c) \<and> rest \<noteq> [] \<and> \<not> isspace (hd rest)"
  then show "split_None_1 (key @ '' '' @ rest) = [key, rest]"
    using split_None_1_pair [of key rest] by blast
next
  assume a: "split_None_1 kv' = [k, v] \<and> database_connected f \<and> couch f = Some c"
  then have q: "do_query k (s, f) =
      (Inr (docs c k), s, f\<lparr>couch := Some (c\<lparr>queried := queried c @ [k]\<rparr>)\<rparr>)"
    by (simp add: do_query_connected)
  show "couch (snd (snd (do_put do_query cbPut cbPout (Some kv') (s, f)))) =
      Some (c\<lparr>queried := queried c @ [k]\<rparr>)"
  proof (cases "docs c k")
    case None
    with a q show ?thesis by (simp add: do_put_def Factory_put_fails)
  next
    case (Some x)
    with a q show ?thesis by (simp add: do_put_def sendCode_553)
  qed
qed

text \<open>One token, three tokens, and two tokens on the connected factory.\<close>

theorem do_put_argument_shape_witness:
  "do_put do_query silent silent (Some ''onlyonetoken'') (no_lines, connected_factory) =
     (Inr (), \<lparr>lines = [''500 '']\<rparr>, connected_factory) \<and>
   length (split_None_1 ''onlyonetoken'') \<le> 1 \<and>
   split_None_1 (''isis'' @ '' '' @ ''isis@leap.se extra'') = [''isis'', ''isis@leap.se extra''] \<and>
   couch (snd (snd (do_put do_query silent silent (Some ''isis x@y'') (no_lines, connected_factory)))) =
     Some ((ConnectedCouchDB [''isis'' \<mapsto> ''isis@leap.se''] local_couch_args)\<lparr>queried := [''isis'']\<rparr>)"
  using do_put_argument_shape [where dq = do_query and cbPut = silent and cbPout = silent
      and s = no_lines and f = connected_factory and kv = "''onlyonetoken''"
      and tok = "''onlyonetoken''" and key = "''isis''" and rest = "''isis@leap.se extra''"
      and kv' = "''isis x@y''" and k = "''isis''" and v = "''x@y''"
      and c = "ConnectedCouchDB [''isis'' \<mapsto> ''isis@leap.se''] local_couch_args"]
  by (simp add: split_examples isspace_def connected_factory_def ConnectedCouchDB_def
      no_lines_def sendLine_def)

text \<open>
  The claim as written fails: the put of \<open>isis isis@leap.se extra\<close>, three tokens, is not
  answered with 500; the backend is queried for \<open>isis\<close> and the reply is 553.
\<close>

theorem do_put_three_tokens_accepted:
  "lines (fst (snd (do_put do_query silent silent (Some ''isis isis@leap.se extra'')
     (no_lines, connected_factory)))) = [''553 ''] \<and>
   map_option queried (couch (snd (snd (do_put do_query silent silent (Some ''isis isis@leap.se extra'')
     (no_lines, connected_factory))))) = Some [''isis'']"
  by (simp add: do_put_def split_examples do_query_def Factory_get_def queryByEmailOrAlias_def
      connected_factory_def ConnectedCouchDB_def sendCode_553 sendLine_def no_lines_def)

text \<open>
  Claim C9, as the code has it. When the factory's flag says connected,
  \<open>connectDatabase\<close> returns the existing connection and starts nothing. When the flag
  is false, every call starts a new attempt and returns it, also while an earlier
  attempt is still in flight.
\<close>

theorem connectDatabase_by_flag:
  "(database_connected f \<and> couch f = Some c \<longrightarrow> connectDatabase database f args = (Inr c, f)) \<and>
   (\<not> database_connected f \<longrightarrow>
      connectDatabase database f args = (Inr (database args), f\<lparr>attempts := attempts f @ [args]\<rparr>))"
  by (simp add: connectDatabase_def)

text \<open>A call on the connected factory, and one on the factory whose first attempt is in flight.\<close>

theorem connectDatabase_by_flag_witness:
  "connectDatabase (ConnectedCouchDB Map.empty) connected_factory local_couch_args =
     (Inr (ConnectedCouchDB [''isis'' \<mapsto> ''isis@leap.se''] local_couch_args), connected_factory) \<and>
   connectDatabase (ConnectedCouchDB Map.empty) connecting_factory local_couch_args =
     (Inr (ConnectedCouchDB Map.empty local_couch_args),
      connecting_factory\<lparr>attempts := [local_couch_args, local_couch_args]\<rparr>)"
  using connectDatabase_by_flag [of connected_factory
      "ConnectedCouchDB [''isis'' \<mapsto> ''isis@leap.se''] local_couch_args" "ConnectedCouchDB Map.empty"
      local_couch_args]
    connectDatabase_by_flag [of connecting_factory
      "ConnectedCouchDB Map.empty local_couch_args" "ConnectedCouchDB Map.empty" local_couch_args]
  by (simp add: connected_factory_def connecting_factory_def)

text \<open>
  The claim as written fails: after \<open>__init__\<close> has issued the first attempt and before
  it completes, a call of \<open>connectDatabase\<close> issues a second one.
\<close>

theorem second_connect_starts_second_attempt:
  "Factory_init (ConnectedCouchDB Map.empty) (Some ''127.0.0.1'') None None None None =
     Inr connecting_factory \<and>
   \<not> database_connected connecting_factory \<and>
   attempts (snd (connectDatabase (ConnectedCouchDB Map.empty) connecting_factory local_couch_args)) =
     [local_couch_args, local_couch_args]"
  by (simp add: Factory_init_def connectDatabase_def connecting_factory_def local_couch_args_def
      Let_def)

end
